theory Spec2Isabelle
  imports Complex_Main "HOL-Library.Char_ord" "HOL-Library.List_Lexorder"
begin

section \<open>The presamples loader (\<open>presamples/loader.py\<close>)\<close>

text \<open>
  A shallow embedding of class \<open>PackagesDataLoader\<close>. Python exceptions are values of
  type \<open>error\<close>. A method that mutates its objects before it raises returns the pair of
  the exception, if any, and the state it leaves behind.
\<close>

subsection \<open>Errors and dictionary access\<close>

datatype error =
    AssertionError string
  | ConflictingLabels
  | IncompatibleIndices
  | KeyError string
  | ValueError string
  | IndexError
  | TypeError string
  | AttributeError string

text \<open>\<open>d[k]\<close> on a Python dict: a missing key raises \<open>KeyError\<close>.\<close>

definition require :: "string \<Rightarrow> 'a option \<Rightarrow> error + 'a" where
  "require k v = (case v of None \<Rightarrow> Inl (KeyError k) | Some x \<Rightarrow> Inr x)"

definition getitem :: "(string \<rightharpoonup> 'a) \<Rightarrow> string \<Rightarrow> error + 'a" where
  "getitem d k = require k (d k)"

text \<open>Sequencing of computations that may raise.\<close>

definition bindE :: "error + 'a \<Rightarrow> ('a \<Rightarrow> error + 'b) \<Rightarrow> error + 'b" where
  "bindE m f = (case m of Inl e \<Rightarrow> Inl e | Inr v \<Rightarrow> f v)"

text \<open>A comprehension \<open>[f(x) for x in xs]\<close> whose body may raise: the first exception,
  in list order, ends it.\<close>

fun mapE :: "('a \<Rightarrow> error + 'b) \<Rightarrow> 'a list \<Rightarrow> error + 'b list" where
  "mapE f [] = Inr []"
| "mapE f (x # xs) =
     (case f x of Inl e \<Rightarrow> Inl e
      | Inr y \<Rightarrow> (case mapE f xs of Inl e \<Rightarrow> Inl e | Inr ys \<Rightarrow> Inr (y # ys)))"

subsection \<open>Identifier tables and sample stores\<close>

text \<open>
  A numpy record array: one entry per field of its dtype, giving the field's name, its
  element type and its column. \<open>a[f]\<close> is the column of field \<open>f\<close>; numpy raises
  \<open>ValueError\<close> for a name that is not a field.
\<close>

type_synonym ndarray = "(string \<times> string \<times> nat list) list"

definition dtype :: "ndarray \<Rightarrow> (string \<times> string) list" where
  "dtype a = map (\<lambda>(n, t, c). (n, t)) a"

definition getfield :: "ndarray \<Rightarrow> string \<Rightarrow> error + nat list" where
  "getfield a f = (case map_of a f of None \<Rightarrow> Inl (ValueError f) | Some (t, c) \<Rightarrow> Inr c)"

text \<open>\<open>a[f][:] = c\<close>: the column of field \<open>f\<close> is overwritten in place.\<close>

definition setfield :: "ndarray \<Rightarrow> string \<Rightarrow> nat list \<Rightarrow> ndarray" where
  "setfield a f c = map (\<lambda>(n, t, c'). if n = f then (n, t, c) else (n, t, c')) a"

text \<open>\<open>np.hstack\<close> on record arrays of one dtype: the columns are joined field by field,
  in the order of the arrays.\<close>

definition hstack :: "ndarray list \<Rightarrow> ndarray" where
  "hstack arrs =
     (case arrs of [] \<Rightarrow> []
      | a # _ \<Rightarrow> map (\<lambda>(n, t, c).
          (n, t, concat (map (\<lambda>b. case map_of b n of None \<Rightarrow> [] | Some (t', c') \<Rightarrow> c') arrs))) a)"

text \<open>
  Modelled from the spec: \<open>IrregularPresamplesArray\<close> (module \<open>array\<close>, not among the
  sources). A store is the sequence of its segments, each a two-dimensional array given
  by its rows; \<open>sample(index)\<close> returns the column at \<open>index\<close> across all segments, one
  value per row, in segment order.
\<close>

type_synonym segment = "real list list"

definition sample :: "segment list \<Rightarrow> nat \<Rightarrow> error + real list" where
  "sample store i =
     (if list_all (list_all (\<lambda>row. i < length row)) store
      then Inr (concat (map (map (\<lambda>row. row ! i)) store))
      else Inl IndexError)"

subsection \<open>The index sequencer\<close>

text \<open>
  Modelled from the spec: \<open>Indexer\<close> (module \<open>indexer\<close>, not among the sources). The
  spec gives it a seed, an opaque generator state and the current index, and says that
  each advance derives the next index from the state. The generator itself belongs to
  the numerical library; it is a parameter here: \<open>rng_init\<close> seeds a state, \<open>rng_draw\<close>
  yields an index and the next state. The loader reads \<open>index\<close> before any advance, so
  construction already draws the first index.
\<close>

record 's generator =
  rng_init :: "int option \<Rightarrow> 's"
  rng_draw :: "'s \<Rightarrow> nat \<times> 's"

record 's indexer =
  seed_value :: "int option"
  state :: 's
  index :: nat

definition Indexer :: "'s generator \<Rightarrow> int option \<Rightarrow> 's indexer" where
  "Indexer g sd =
     (case rng_draw g (rng_init g sd) of
        (i, st) \<Rightarrow> \<lparr>seed_value = sd, state = st, index = i\<rparr>)"

text \<open>\<open>next(indexer)\<close>\<close>

definition next_index :: "'s generator \<Rightarrow> 's indexer \<Rightarrow> 's indexer" where
  "next_index g ix =
     (case rng_draw g (state ix) of (i, st) \<Rightarrow> ix\<lparr>state := st, index := i\<rparr>)"

subsection \<open>Manifests, resource groups, packages\<close>

text \<open>
  A resource descriptor of \<open>datapackage.json\<close>. \<open>entries\<close> holds its string-valued
  entries (\<open>type\<close>, \<open>matrix\<close>, the label and dictionary names, \<open>profile\<close>, ...);
  \<open>names\<close> is its \<open>names\<close> entry; \<open>indices_file\<close> and \<open>samples_file\<close> are the
  arrays stored in the files that the \<open>indices\<close> and \<open>samples\<close> entries name
  (\<open>None\<close>: the descriptor has no such entry).
\<close>

record resource =
  entries :: "string \<rightharpoonup> string"
  names :: "string list option"
  indices_file :: "ndarray option"
  samples_file :: "segment option"

text \<open>The parsed manifest; \<open>None\<close> is a key that the file does not have, and
  \<open>Some None\<close> is a seed recorded as \<open>null\<close>.\<close>

record manifest =
  m_name :: "string option"
  m_id :: "string option"
  m_seed :: "int option option"
  m_resources :: "resource list option"

text \<open>
  The dictionary that \<open>consolidate\<close> returns: \<open>meta\<close> are the entries copied from the
  first member of the group, \<open>samples\<close> and \<open>indices\<close> the merged store and table.
  \<open>indexed\<close> is what \<open>elem.get('indexed')\<close> yields as a condition: false when the
  dictionary has no such entry, true once \<open>index_arrays\<close> has stored \<open>True\<close> there, and
  what a manifest entry of that name amounts to when the first member carries one
  (\<open>consolidate\<close> copies it like any other entry, \<open>indexed\<close> not being in \<open>SKIP\<close>).
\<close>

record elem =
  meta :: "string \<rightharpoonup> string"
  samples :: "segment list"
  indices :: ndarray
  indexed :: bool

record parameter_meta =
  path :: string
  resources :: "resource list"
  package_name :: string

text \<open>
  The dictionary that \<open>load_data\<close> returns. Its \<open>indexer\<close> entry is an object that the
  loader also keeps in three lists of its own; it is returned beside the record, and the
  loader holds every indexer once, in \<open>sample_indexers\<close>, the other lists referring to
  it by position.
\<close>

record package =
  name :: string
  ident :: string
  pkg_seed :: "int option"
  matrix_data :: "elem list"
  parameter_metadata :: "parameter_meta option"

subsection \<open>\<open>consolidate\<close>\<close>

text \<open>\<open>obj.get(k)\<close> taken as a condition: the entry is there and not empty.\<close>

definition truthy :: "'a list option \<Rightarrow> bool" where
  "truthy v = (case v of None \<Rightarrow> False | Some s \<Rightarrow> s \<noteq> [])"

definition SKIP :: "string list" where
  "SKIP = [''indices'', ''samples'', ''profile'', ''format'', ''mediatype'']"

text \<open>The tuple \<open>(el[a], el[b], el[c])\<close>, evaluated from left to right.\<close>

definition labels :: "string \<Rightarrow> string \<Rightarrow> string \<Rightarrow> resource \<Rightarrow> error + (string \<times> string \<times> string)" where
  "labels a b c el =
     bindE (getitem (entries el) a) (\<lambda>x.
     bindE (getitem (entries el) b) (\<lambda>y.
     bindE (getitem (entries el) c) (\<lambda>z. Inr (x, y, z))))"

definition load_indices :: "resource \<Rightarrow> error + ndarray" where
  "load_indices r = require ''indices'' (indices_file r)"

definition load_samples :: "resource \<Rightarrow> error + segment" where
  "load_samples r = require ''samples'' (samples_file r)"

definition consolidate :: "resource list \<Rightarrow> error + elem" where
  "consolidate grp =
     bindE (mapE (\<lambda>el. getitem (entries el) ''matrix'') grp) (\<lambda>ms.
     if length (remdups ms) \<noteq> 1 then Inl (AssertionError ''Conflicting matrices'')
     else
     bindE (mapE (labels ''row from label'' ''row to label'' ''row dict'') grp) (\<lambda>rs.
     if length (remdups rs) \<noteq> 1 then Inl ConflictingLabels
     else
     bindE (if list_ex (\<lambda>o'. ''col dict'' \<in> dom (entries o')) grp
            then bindE (mapE (labels ''col from label'' ''col to label'' ''col dict'') grp) (\<lambda>cs.
                   if length (remdups cs) \<noteq> 1 then Inl ConflictingLabels else Inr ())
            else Inr ()) (\<lambda>_.
     bindE (mapE load_indices grp) (\<lambda>tables.
     if length (remdups (map dtype tables)) \<noteq> 1 then Inl IncompatibleIndices
     else
     bindE (mapE load_samples grp) (\<lambda>segs.
     Inr \<lparr>meta = entries (hd grp) |` (- set SKIP),
          samples = segs,
          indices = hstack tables,
          indexed = truthy (entries (hd grp) ''indexed'')\<rparr>)))))"

subsection \<open>\<open>load_data\<close>\<close>

definition get_seed :: "int option \<Rightarrow> int option \<Rightarrow> int option" where
  "get_seed seed x = (case seed of Some s \<Rightarrow> Some s | None \<Rightarrow> x)"

text \<open>\<open>itertools.groupby\<close>: the runs of consecutive elements with equal keys.\<close>

function groupby :: "('a \<Rightarrow> 'k) \<Rightarrow> 'a list \<Rightarrow> ('k \<times> 'a list) list" where
  "groupby f [] = []"
| "groupby f (x # xs) =
     (f x, x # takeWhile (\<lambda>y. f y = f x) xs) # groupby f (dropWhile (\<lambda>y. f y = f x) xs)"
  by pat_completeness auto
termination
  by (relation "measure (\<lambda>(f, xs). length xs)") (auto simp: length_dropWhile_le less_Suc_eq_le)

text \<open>
  \<open>load_data(dirpath, seed)\<close>; \<open>metadata\<close> is the content of \<open>datapackage.json\<close> in
  \<open>dirpath\<close>. The list is sorted by \<open>x['type']\<close> (a stable sort; the keys are computed
  first, so a resource without \<open>type\<close> raises) and each run of one type is consolidated.
\<close>

definition load_data :: "'s generator \<Rightarrow> string \<Rightarrow> manifest \<Rightarrow> int option \<Rightarrow> error + (package \<times> 's indexer)" where
  "load_data g dirpath metadata seed =
     bindE (require ''name'' (m_name metadata)) (\<lambda>nm.
     bindE (require ''id'' (m_id metadata)) (\<lambda>i.
     bindE (require ''seed'' (m_seed metadata)) (\<lambda>sd.
     let ix = Indexer g (get_seed seed sd) in
     bindE (require ''resources'' (m_resources metadata)) (\<lambda>rs.
     let resources0 = filter (\<lambda>obj. truthy (entries obj ''matrix'')) rs in
     bindE (mapE (\<lambda>x. getitem (entries x) ''type'') resources0) (\<lambda>keys.
     let sorted_resources = sort_key fst (zip keys resources0) in
     bindE (mapE (\<lambda>(key, grp). consolidate (map snd grp)) (groupby fst sorted_resources)) (\<lambda>groups.
     let parameter_resources = filter (\<lambda>obj. truthy (names obj)) rs in
     Inr (\<lparr>name = nm, ident = i, pkg_seed = sd, matrix_data = groups,
           parameter_metadata =
             (if parameter_resources \<noteq> []
              then Some \<lparr>path = dirpath, resources = parameter_resources, package_name = nm\<rparr>
              else None)\<rparr>, ix)))))))"

subsection \<open>The loader and its constructor\<close>

text \<open>
  The attributes of a \<open>PackagesDataLoader\<close>. \<open>sample_indexers\<close> holds the indexer
  objects in load order; \<open>msi\<close> and \<open>psi\<close> hold positions in it, since the source
  puts the same objects in all three lists. \<open>has_parameters\<close> says whether the
  attribute \<open>_parameters\<close> has been set.
\<close>

record 's loader =
  seed :: "int option"
  data :: "package list"
  parameter_metadata_list :: "parameter_meta list"
  sample_indexers :: "'s indexer list"
  msi :: "nat list"
  psi :: "nat list"
  empty :: bool
  has_parameters :: bool

text \<open>
  The loop of \<open>__init__\<close>. Modelled from the spec: \<open>validate_presamples_dirpath\<close>
  (module \<open>utils\<close>, not among the sources) is the external validator that fails before
  load begins; \<open>files d\<close> is the manifest of a directory that passes it, and \<open>None\<close>
  for one that fails it, which the tests expect as an \<open>AssertionError\<close>.
\<close>

fun load_all :: "'s generator \<Rightarrow> (string \<Rightarrow> manifest option) \<Rightarrow> string list \<Rightarrow> 's loader \<Rightarrow> error + 's loader" where
  "load_all g files [] L = Inr L"
| "load_all g files (dirpath # dirpaths) L =
     (case files dirpath of
        None \<Rightarrow> Inl (AssertionError dirpath)
      | Some metadata \<Rightarrow>
        (case load_data g dirpath metadata (seed L) of
           Inl e \<Rightarrow> Inl e
         | Inr (section, ix) \<Rightarrow>
           let a = length (sample_indexers L);
               L1 = L\<lparr>sample_indexers := sample_indexers L @ [ix]\<rparr>;
               L2 = (if matrix_data section \<noteq> []
                     then L1\<lparr>data := data L1 @ [section], msi := msi L1 @ [a]\<rparr>
                     else L1);
               L3 = (case parameter_metadata section of
                       Some pm \<Rightarrow> L2\<lparr>parameter_metadata_list := parameter_metadata_list L2 @ [pm],
                                      psi := psi L2 @ [a]\<rparr>
                     | None \<Rightarrow> L2)
           in load_all g files dirpaths L3))"

definition PackagesDataLoader :: "'s generator \<Rightarrow> (string \<Rightarrow> manifest option) \<Rightarrow> string list \<Rightarrow> int option \<Rightarrow> error + 's loader" where
  "PackagesDataLoader g files dirpaths sd =
     (case load_all g files dirpaths
             \<lparr>seed = sd, data = [], parameter_metadata_list = [], sample_indexers = [],
              msi = [], psi = [], empty = True, has_parameters = False\<rparr> of
        Inl e \<Rightarrow> Inl e
      | Inr L \<Rightarrow> Inr (L\<lparr>empty := (data L = [])\<rparr>))"

text \<open>\<open>len(loader)\<close>\<close>

definition len :: "'s loader \<Rightarrow> nat" where
  "len L = length (data L)"

subsection \<open>The target model\<close>

text \<open>
  The object whose matrices are updated is read by attribute name only. Its attributes
  are matrices, identifier dictionaries, or anything else; distinct names are taken to
  hold distinct objects. A matrix is given by its entries; bounds are the business of
  the caller's matrix class.
\<close>

datatype attr = Matrix "nat \<times> nat \<Rightarrow> real" | Dict "nat \<rightharpoonup> nat" | Other

type_synonym target = "string \<rightharpoonup> attr"

text \<open>
  \<open>index_with_arrays\<close> and \<open>fix_supply_use\<close> belong to the calculation library and
  are parameters of the methods below. A resolver is given the contents of \<open>array_from\<close>
  and \<open>array_to\<close> and the mapping object; it returns what it leaves in \<open>array_to\<close>, and
  the exception it raised, if any. A fix-up is given the identifier table and the sample
  and returns the sample as it leaves it.
\<close>

type_synonym resolver = "nat list \<Rightarrow> nat list \<Rightarrow> attr \<Rightarrow> error option \<times> nat list"

type_synonym fixup = "ndarray \<Rightarrow> real list \<Rightarrow> error + real list"

text \<open>\<open>hasattr(lca, n)\<close> and \<open>getattr(lca, n)\<close>\<close>

definition hasattr :: "target \<Rightarrow> string \<Rightarrow> bool" where
  "hasattr lca n = (lca n \<noteq> None)"

definition getattr :: "target \<Rightarrow> string \<Rightarrow> error + attr" where
  "getattr lca n = (case lca n of None \<Rightarrow> Inl (AttributeError n) | Some v \<Rightarrow> Inr v)"

text \<open>A step that may raise, inside a method that mutates the state \<open>s\<close>: the
  exception leaves \<open>s\<close> as it is.\<close>

definition orRaise :: "error + 'a \<Rightarrow> 'st \<Rightarrow> ('a \<Rightarrow> error option \<times> 'st) \<Rightarrow> error option \<times> 'st" where
  "orRaise m s k = (case m of Inl e \<Rightarrow> (Some e, s) | Inr v \<Rightarrow> k v)"

subsection \<open>\<open>index_arrays\<close>\<close>

text \<open>One call \<open>index_with_arrays(indices[elem[f]], indices[elem[t]], getattr(lca, elem[d]))\<close>,
  its arguments evaluated from left to right.\<close>

definition index_with :: "resolver \<Rightarrow> target \<Rightarrow> string \<Rightarrow> string \<Rightarrow> string \<Rightarrow> elem \<Rightarrow> error option \<times> elem" where
  "index_with iwa lca f t d elem =
     orRaise (getitem (meta elem) f) elem (\<lambda>from_label.
     orRaise (getfield (indices elem) from_label) elem (\<lambda>array_from.
     orRaise (getitem (meta elem) t) elem (\<lambda>to_label.
     orRaise (getfield (indices elem) to_label) elem (\<lambda>array_to.
     orRaise (getitem (meta elem) d) elem (\<lambda>dict_name.
     orRaise (getattr lca dict_name) elem (\<lambda>mapping.
     (case iwa array_from array_to mapping of
        (err, array_to') \<Rightarrow>
          (err, elem\<lparr>indices := setfield (indices elem) to_label array_to'\<rparr>))))))))"

text \<open>The body of the inner loop of \<open>index_arrays\<close> for one \<open>elem\<close>.\<close>

definition index_elem :: "resolver \<Rightarrow> target \<Rightarrow> elem \<Rightarrow> error option \<times> elem" where
  "index_elem iwa lca elem =
     (if indexed elem then (None, elem)
      else orRaise (getitem (meta elem) ''row dict'') elem (\<lambda>rd.
        if \<not> hasattr lca rd then (None, elem)
        else if (case meta elem ''col dict'' of None \<Rightarrow> False | Some cd \<Rightarrow> \<not> hasattr lca cd)
        then (None, elem)
        else
          (case index_with iwa lca ''row from label'' ''row to label'' ''row dict'' elem of
             (Some e, elem1) \<Rightarrow> (Some e, elem1)
           | (None, elem1) \<Rightarrow>
               (if ''col dict'' \<in> dom (meta elem1)
                then (case index_with iwa lca ''col from label'' ''col to label'' ''col dict'' elem1 of
                        (Some e, elem2) \<Rightarrow> (Some e, elem2)
                      | (None, elem2) \<Rightarrow> (None, elem2\<lparr>indexed := True\<rparr>))
                else (None, elem1\<lparr>indexed := True\<rparr>)))))"

text \<open>A loop that mutates each element of a list in turn and stops at the first
  exception, leaving the later elements as they were.\<close>

fun map_until :: "('a \<Rightarrow> error option \<times> 'a) \<Rightarrow> 'a list \<Rightarrow> error option \<times> 'a list" where
  "map_until f [] = (None, [])"
| "map_until f (x # xs) =
     (case f x of
        (Some e, x') \<Rightarrow> (Some e, x' # xs)
      | (None, x') \<Rightarrow> (case map_until f xs of (r, xs') \<Rightarrow> (r, x' # xs')))"

definition index_package :: "resolver \<Rightarrow> target \<Rightarrow> package \<Rightarrow> error option \<times> package" where
  "index_package iwa lca obj =
     (case map_until (index_elem iwa lca) (matrix_data obj) of
        (r, es) \<Rightarrow> (r, obj\<lparr>matrix_data := es\<rparr>))"

text \<open>\<open>index_arrays(lca)\<close>, under the decorator \<open>nonempty\<close>.\<close>

definition index_arrays :: "resolver \<Rightarrow> target \<Rightarrow> 's loader \<Rightarrow> error option \<times> 's loader" where
  "index_arrays iwa lca L =
     (if empty L then (None, L)
      else case map_until (index_package iwa lca) (data L) of
             (r, ds) \<Rightarrow> (r, L\<lparr>data := ds\<rparr>))"

subsection \<open>\<open>update_matrices\<close>\<close>

text \<open>
  Modelled from the spec: the assignment \<open>matrix[rows, cols] = sample\<close> on the caller's
  matrix writes \<open>matrix[row_pos, col_pos] = value\<close> elementwise, record by record. The
  spec requires one sampled value per record; other shapes, and an attribute that is not
  a matrix, are errors of the matrix class.
\<close>

definition write_all :: "(nat \<times> nat \<Rightarrow> real) \<Rightarrow> (nat \<times> nat \<times> real) list \<Rightarrow> (nat \<times> nat \<Rightarrow> real)" where
  "write_all M ws = fold (\<lambda>(r, c, v) M'. M'((r, c) := v)) ws M"

fun setitem :: "attr \<Rightarrow> nat list \<Rightarrow> nat list \<Rightarrow> real list \<Rightarrow> error + attr" where
  "setitem (Matrix M) rows cols vals =
     (if length rows = length vals \<and> length cols = length vals
      then Inr (Matrix (write_all M (zip rows (zip cols vals))))
      else Inl (ValueError ''shape mismatch''))"
| "setitem _ rows cols vals = Inl (TypeError ''not a matrix'')"

text \<open>The body of the inner loop of \<open>update_matrices\<close> for one \<open>elem\<close>; \<open>i\<close> is
  \<open>indexer.index\<close>.\<close>

definition update_elem :: "fixup \<Rightarrow> target \<Rightarrow> string list option \<Rightarrow> nat \<Rightarrow> elem \<Rightarrow> error option \<times> target" where
  "update_elem fix lca matrices i elem =
     orRaise (getitem (meta elem) ''matrix'') lca (\<lambda>m.
     (case lca m of
        None \<Rightarrow> (None, lca)
      | Some matrix \<Rightarrow>
        (if (case matrices of None \<Rightarrow> False | Some ms \<Rightarrow> m \<notin> set ms) then (None, lca)
         else
           orRaise (sample (samples elem) i) lca (\<lambda>sample0.
           orRaise (getitem (meta elem) ''type'') lca (\<lambda>ty.
           orRaise (if ty = ''technosphere'' then fix (indices elem) sample0 else Inr sample0) lca (\<lambda>sample1.
           (if ''col dict'' \<in> dom (meta elem)
            then
              orRaise (getitem (meta elem) ''row to label'') lca (\<lambda>rl.
              orRaise (getfield (indices elem) rl) lca (\<lambda>rows.
              orRaise (getitem (meta elem) ''col to label'') lca (\<lambda>cl.
              orRaise (getfield (indices elem) cl) lca (\<lambda>cols.
              orRaise (setitem matrix rows cols sample1) lca (\<lambda>matrix'.
              (None, lca(m \<mapsto> matrix')))))))
            else
              orRaise (getitem (meta elem) ''row to label'') lca (\<lambda>rl.
              orRaise (getfield (indices elem) rl) lca (\<lambda>rows.
              orRaise (getitem (meta elem) ''row to label'') lca (\<lambda>rl2.
              orRaise (getfield (indices elem) rl2) lca (\<lambda>rows2.
              orRaise (setitem matrix rows rows2 sample1) lca (\<lambda>matrix'.
              (None, lca(m \<mapsto> matrix'))))))))))))))"

text \<open>A loop over a list that threads a state and stops at the first exception.\<close>

fun foreach :: "('a \<Rightarrow> 'st \<Rightarrow> error option \<times> 'st) \<Rightarrow> 'a list \<Rightarrow> 'st \<Rightarrow> error option \<times> 'st" where
  "foreach f [] s = (None, s)"
| "foreach f (x # xs) s =
     (case f x s of (Some e, s') \<Rightarrow> (Some e, s') | (None, s') \<Rightarrow> foreach f xs s')"

text \<open>\<open>update_matrices(lca, matrices)\<close>, under the decorator \<open>nonempty\<close>.\<close>

definition update_matrices :: "fixup \<Rightarrow> target \<Rightarrow> string list option \<Rightarrow> 's loader \<Rightarrow> error option \<times> target" where
  "update_matrices fix lca matrices L =
     (if empty L then (None, lca)
      else foreach
             (\<lambda>(a, obj). foreach (\<lambda>elem lca'. update_elem fix lca' matrices
                                      (index (sample_indexers L ! a)) elem)
                                   (matrix_data obj))
             (zip (msi L) (data L)) lca)"

subsection \<open>\<open>update_sample_indices\<close> and \<open>parameters\<close>\<close>

text \<open>
  Every indexer is advanced once. When \<open>_parameters\<close> is set, the source then zips
  \<open>self.psi\<close> with the bound method \<open>self.parameters\<close>, which is not iterable.
\<close>

definition update_sample_indices :: "'s generator \<Rightarrow> 's loader \<Rightarrow> error option \<times> 's loader" where
  "update_sample_indices g L =
     (let L' = L\<lparr>sample_indexers := map (next_index g) (sample_indexers L)\<rparr>
      in if has_parameters L
         then (Some (TypeError ''method object is not iterable''), L')
         else (None, L'))"

definition parameters :: "'s loader \<Rightarrow> 's loader" where
  "parameters L = L\<lparr>has_parameters := True\<rparr>"

section \<open>Vocabulary of the properties\<close>

text \<open>All resource groups that a loader holds, package by package.\<close>

definition groups :: "'s loader \<Rightarrow> elem list" where
  "groups L = concat (map matrix_data (data L))"

text \<open>
  The calls that a client can make on a loader during its lifetime, and the loader they
  leave behind, whether or not the call raised. \<open>update_matrices\<close> writes into the
  target only.
\<close>

datatype call = Index target | Update target "string list option" | Advance | Parameters

fun step :: "resolver \<Rightarrow> 's generator \<Rightarrow> call \<Rightarrow> 's loader \<Rightarrow> 's loader" where
  "step iwa g (Index lca) L = snd (index_arrays iwa lca L)"
| "step iwa g (Update lca matrices) L = L"
| "step iwa g Advance L = snd (update_sample_indices g L)"
| "step iwa g Parameters L = parameters L"

definition run :: "resolver \<Rightarrow> 's generator \<Rightarrow> call list \<Rightarrow> 's loader \<Rightarrow> 's loader" where
  "run iwa g cs L = fold (step iwa g) cs L"

text \<open>The group declares column fields.\<close>

definition has_cols :: "elem \<Rightarrow> bool" where
  "has_cols e = (''col dict'' \<in> dom (meta e))"

text \<open>\<open>update_matrices\<close> skips the group: the target has no attribute of the name of its
  matrix, or the filter excludes that name.\<close>

definition skipped :: "target \<Rightarrow> string list option \<Rightarrow> string \<Rightarrow> bool" where
  "skipped lca matrices m =
     (lca m = None \<or> (case matrices of None \<Rightarrow> False | Some ms \<Rightarrow> m \<notin> set ms))"

text \<open>The loader without the group at position \<open>k\<close> of its package at position \<open>j\<close>.\<close>

definition drop_group :: "nat \<Rightarrow> nat \<Rightarrow> 's loader \<Rightarrow> 's loader" where
  "drop_group j k L =
     L\<lparr>data := (data L)[j := (data L ! j)\<lparr>matrix_data :=
          take k (matrix_data (data L ! j)) @ drop (Suc k) (matrix_data (data L ! j))\<rparr>]\<rparr>"

text \<open>
  The groups in the order in which \<open>update_matrices\<close> visits them, each with the index
  that the indexer of its package shows at the call.
\<close>

definition steps :: "'s loader \<Rightarrow> (nat \<times> elem) list" where
  "steps L =
     concat (map (\<lambda>(a, obj). map (\<lambda>elem. (index (sample_indexers L ! a), elem)) (matrix_data obj))
                 (zip (msi L) (data L)))"

text \<open>The number of calls of \<open>update_sample_indices\<close> in a sequence of calls.\<close>

definition advances :: "call list \<Rightarrow> nat" where
  "advances cs = length (filter (\<lambda>c. c = Advance) cs)"


text \<open>The indices that an indexer shows after each of \<open>n\<close> advances.\<close>

fun index_sequence :: "'s generator \<Rightarrow> 's indexer \<Rightarrow> nat \<Rightarrow> nat list" where
  "index_sequence g ix 0 = []"
| "index_sequence g ix (Suc n) = index (next_index g ix) # index_sequence g (next_index g ix) n"

text \<open>The columns drawn from a store along a sequence of indices.\<close>

definition sampled_columns :: "segment list \<Rightarrow> nat list \<Rightarrow> (error + real list) list" where
  "sampled_columns store is = map (sample store) is"

section \<open>Examples\<close>

text \<open>
  The fixture of \<open>tests/matrix_presamples.py\<close>: one resource of type \<open>mock\<close> with three
  records, a sample array of three rows and four columns, and the target \<open>MockLCA\<close>
  with its dictionaries \<open>{x: 2 * x}\<close> and \<open>{x: 3 * x}\<close> on \<open>range(5)\<close>.
\<close>

definition mock_indices :: ndarray where
  "mock_indices =
     [(''f1'', ''uint32'', [1, 1, 2]), (''f2'', ''uint32'', [1, 2, 3]),
      (''f3'', ''uint32'', [1, 1, 2]), (''f4'', ''uint32'', [1, 2, 3])]"

definition mock_samples :: segment where
  "mock_samples = [[100, 100, 100, 100], [100, 100, 100, 100], [100, 100, 100, 100]]"

definition mock_entries :: "string \<rightharpoonup> string" where
  "mock_entries = map_of
     [(''type'', ''mock''), (''matrix'', ''matrix''),
      (''row from label'', ''f1''), (''row to label'', ''f3''), (''row dict'', ''row_dict''),
      (''col from label'', ''f2''), (''col to label'', ''f4''), (''col dict'', ''col_dict'')]"

definition mock_resource :: resource where
  "mock_resource =
     \<lparr>entries = mock_entries, names = None,
      indices_file = Some mock_indices, samples_file = Some mock_samples\<rparr>"

definition mock_elem :: elem where
  "mock_elem = \<lparr>meta = mock_entries, samples = [mock_samples], indices = mock_indices, indexed = False\<rparr>"

text \<open>A diagonal group, as in \<open>test_update_matrices_one_dimensional\<close>.\<close>

definition cf_elem :: elem where
  "cf_elem =
     \<lparr>meta = map_of [(''type'', ''cf''), (''matrix'', ''characterization_matrix''),
                     (''row from label'', ''flow''), (''row to label'', ''row''),
                     (''row dict'', ''_biosphere_dict'')],
      samples = [[[10], [11], [12]]],
      indices = [(''flow'', ''uint32'', [1, 3, 4]), (''row'', ''uint32'', [1, 3, 4])],
      indexed = False\<rparr>"

definition zeros :: "nat \<times> nat \<Rightarrow> real" where
  "zeros = (\<lambda>_. 0)"

definition MockLCA :: target where
  "MockLCA = map_of
     [(''matrix'', Matrix zeros),
      (''row_dict'', Dict (\<lambda>x. if x < 5 then Some (2 * x) else None)),
      (''col_dict'', Dict (\<lambda>x. if x < 5 then Some (3 * x) else None))]"

text \<open>\<open>MockLCA\<close> after \<open>del lca.col_dict\<close>, after its dictionaries were replaced by
  \<open>{x: 0}\<close>, and \<open>WrongLCA\<close>, which has a matrix of another name.\<close>

definition MockLCA_no_col :: target where
  "MockLCA_no_col = MockLCA(''col_dict'' := None)"

definition MockLCA_changed :: target where
  "MockLCA_changed = MockLCA(''row_dict'' \<mapsto> Dict (\<lambda>x. if x < 5 then Some 0 else None),
                             ''col_dict'' \<mapsto> Dict (\<lambda>x. if x < 5 then Some 0 else None))"

definition WrongLCA :: target where
  "WrongLCA = map_of
     [(''wrong'', Matrix zeros),
      (''row_dict'', Dict (\<lambda>x. if x < 5 then Some (2 * x) else None)),
      (''col_dict'', Dict (\<lambda>x. if x < 5 then Some (3 * x) else None))]"

text \<open>A resolver for the examples: every identifier is looked up in the dictionary.\<close>

fun lookup_resolver :: resolver where
  "lookup_resolver array_from array_to (Dict d) =
     (if list_all (\<lambda>x. d x \<noteq> None) array_from
      then (None, map (\<lambda>x. case d x of Some v \<Rightarrow> v | None \<Rightarrow> 0) array_from)
      else (Some (KeyError ''identifier''), array_to))"
| "lookup_resolver array_from array_to _ = (Some (TypeError ''not a dictionary''), array_to)"

text \<open>A fix-up for the examples: the sign of the records of type 1 is flipped.\<close>

definition flip_inputs :: fixup where
  "flip_inputs array vector =
     bindE (getfield array ''type'') (\<lambda>ts.
       Inr (map (\<lambda>(t, v). if t = 1 then - v else v) (zip ts vector)))"

text \<open>A generator for the examples, a linear congruence on the state.\<close>

definition lcg :: "nat generator" where
  "lcg = \<lparr>rng_init = (\<lambda>sd. case sd of None \<Rightarrow> 7 | Some s \<Rightarrow> nat \<bar>s\<bar>),
          rng_draw = (\<lambda>st. (st mod 4, (5 * st + 3) mod 16))\<rparr>"

definition mock_manifest :: manifest where
  "mock_manifest =
     \<lparr>m_name = Some ''mock package'', m_id = Some ''one'', m_seed = Some (Some 42),
      m_resources = Some [mock_resource]\<rparr>"

definition empty_manifest :: manifest where
  "empty_manifest =
     \<lparr>m_name = Some ''foo'', m_id = Some ''one'', m_seed = Some None, m_resources = Some []\<rparr>"

definition mock_files :: "string \<Rightarrow> manifest option" where
  "mock_files d =
     (if d = ''mock'' then Some mock_manifest
      else if d = ''empty'' then Some empty_manifest else None)"

definition mock_package :: package where
  "mock_package =
     \<lparr>name = ''mock package'', ident = ''one'', pkg_seed = Some 42,
      matrix_data = [mock_elem], parameter_metadata = None\<rparr>"

definition mock_loader :: "nat loader" where
  "mock_loader =
     \<lparr>seed = None, data = [mock_package], parameter_metadata_list = [],
      sample_indexers = [Indexer lcg (Some 42)], msi = [0], psi = [],
      empty = False, has_parameters = False\<rparr>"

text \<open>The example group once \<open>index_arrays(MockLCA)\<close> has resolved it, and the target of
  \<open>test_update_matrices_one_dimensional\<close>.\<close>

definition mock_elem_indexed :: elem where
  "mock_elem_indexed =
     mock_elem\<lparr>indices :=
         [(''f1'', ''uint32'', [1, 1, 2]), (''f2'', ''uint32'', [1, 2, 3]),
          (''f3'', ''uint32'', [2, 2, 4]), (''f4'', ''uint32'', [3, 6, 9])],
       indexed := True\<rparr>"

definition CfLCA :: target where
  "CfLCA = map_of
     [(''characterization_matrix'', Matrix zeros),
      (''_biosphere_dict'', Dict (\<lambda>x. if 1 \<le> x \<and> x < 7 then Some (x - 1) else None))]"

text \<open>The group of \<open>test_consolidate_mismatched_matrices\<close>, and a manifest whose two
  resources of type \<open>mock\<close> name different matrices.\<close>

definition resource_a :: resource where
  "resource_a = \<lparr>entries = map_of [(''matrix'', ''a'')], names = None,
                  indices_file = None, samples_file = None\<rparr>"

definition resource_b :: resource where
  "resource_b = \<lparr>entries = map_of [(''matrix'', ''b'')], names = None,
                  indices_file = None, samples_file = None\<rparr>"

definition mock_resource_other :: resource where
  "mock_resource_other = mock_resource\<lparr>entries := mock_entries(''matrix'' \<mapsto> ''other'')\<rparr>"

definition conflicting_manifest :: manifest where
  "conflicting_manifest =
     \<lparr>m_name = Some ''conflict'', m_id = Some ''two'', m_seed = Some (Some 1),
      m_resources = Some [mock_resource, mock_resource_other]\<rparr>"

definition conflicting_files :: "string \<Rightarrow> manifest option" where
  "conflicting_files d = (if d = ''conflict'' then Some conflicting_manifest else None)"

text \<open>The mock resource without its column entries, and the same with a stray
  \<open>col from label\<close> but still no \<open>col dict\<close>.\<close>

definition mock_resource_diag :: resource where
  "mock_resource_diag =
     mock_resource\<lparr>entries := mock_entries(''col from label'' := None,
                       ''col to label'' := None, ''col dict'' := None)\<rparr>"

definition mock_resource_stray :: resource where
  "mock_resource_stray =
     mock_resource\<lparr>entries := mock_entries(''col from label'' \<mapsto> ''other'',
                       ''col to label'' := None, ''col dict'' := None)\<rparr>"

text \<open>
  The sample array of \<open>test_seed_functions\<close>, \<open>np.arange(12).reshape((3, 4))\<close>, in the
  resolved mock group, and a loader holding it; the index of its indexer is 2.
\<close>

definition arange_samples :: segment where
  "arange_samples = [[0, 1, 2, 3], [4, 5, 6, 7], [8, 9, 10, 11]]"

definition arange_elem :: elem where
  "arange_elem = mock_elem_indexed\<lparr>samples := [arange_samples]\<rparr>"

definition arange_loader :: "nat loader" where
  "arange_loader =
     \<lparr>seed = None,
      data = [mock_package\<lparr>matrix_data := [arange_elem]\<rparr>],
      parameter_metadata_list = [],
      sample_indexers = [Indexer lcg (Some 42)], msi = [0], psi = [],
      empty = False, has_parameters = False\<rparr>"

text \<open>The same array in the mock group as loaded, not yet resolved, and a loader
  holding it and then the diagonal group, in two packages; the index of the second
  indexer is 0.\<close>

definition arange_raw_elem :: elem where
  "arange_raw_elem = mock_elem\<lparr>samples := [arange_samples]\<rparr>"

definition raw_loader :: "nat loader" where
  "raw_loader =
     \<lparr>seed = None,
      data = [mock_package\<lparr>matrix_data := [arange_raw_elem]\<rparr>,
              mock_package\<lparr>matrix_data := [cf_elem]\<rparr>],
      parameter_metadata_list = [],
      sample_indexers = [Indexer lcg (Some 42), Indexer lcg (Some 4)], msi = [0, 1], psi = [],
      empty = False, has_parameters = False\<rparr>"

text \<open>A target with both matrices.\<close>

definition BothLCA :: target where
  "BothLCA = MockLCA(''characterization_matrix'' \<mapsto> Matrix zeros)"


text \<open>A manifest resource that carries an \<open>indexed\<close> entry.\<close>

definition mock_resource_flagged :: resource where
  "mock_resource_flagged = mock_resource\<lparr>entries := mock_entries(''indexed'' \<mapsto> ''true'')\<rparr>"

text \<open>The example loader after \<open>index_arrays(MockLCA)\<close>.\<close>

definition mock_loader_indexed :: "nat loader" where
  "mock_loader_indexed = snd (index_arrays lookup_resolver MockLCA mock_loader)"

section \<open>Indexing\<close>

subsection \<open>The loops of \<open>index_arrays\<close>\<close>

lemma map_until_rel:
  "list_all2 (\<lambda>x y. y = x \<or> y = snd (f x)) xs (snd (map_until f xs))"
proof (induction xs)
  case Nil
  show ?case by simp
next
  case (Cons x xs)
  have refl: "list_all2 (\<lambda>x y. y = x \<or> y = snd (f x)) xs xs"
    by (simp add: list_all2_same)
  show ?case using Cons refl
    by (cases "f x") (auto split: option.splits prod.splits)
qed


lemma index_elem_indexed: "indexed e \<Longrightarrow> index_elem iwa lca e = (None, e)"
  by (simp add: index_elem_def)

lemma index_package_rel:
  "list_all2 (\<lambda>x y. y = x \<or> y = snd (index_elem iwa lca x))
     (matrix_data obj) (matrix_data (snd (index_package iwa lca obj)))"
  using map_until_rel [of "index_elem iwa lca" "matrix_data obj"]
  by (simp add: index_package_def case_prod_unfold)

lemma index_arrays_rel:
  "list_all2 (\<lambda>x y. y = x \<or> y = snd (index_elem iwa lca x))
     (groups L) (groups (snd (index_arrays iwa lca L)))"
proof (cases "empty L")
  case True
  then show ?thesis by (simp add: index_arrays_def list_all2_same)
next
  case False
  let ?R = "\<lambda>x y. y = x \<or> y = snd (index_elem iwa lca x)"
  have "list_all2 (\<lambda>p q. q = p \<or> q = snd (index_package iwa lca p))
          (data L) (snd (map_until (index_package iwa lca) (data L)))"
    by (rule map_until_rel)
  then have "list_all2 (\<lambda>p q. list_all2 ?R (matrix_data p) (matrix_data q))
          (data L) (snd (map_until (index_package iwa lca) (data L)))"
    by (rule list_all2_mono) (auto simp: list_all2_same index_package_rel)
  then have "list_all2 (list_all2 ?R) (map matrix_data (data L))
          (map matrix_data (snd (map_until (index_package iwa lca) (data L))))"
    by (simp add: list_all2_map1 list_all2_map2)
  then have "list_all2 ?R (concat (map matrix_data (data L)))
          (concat (map matrix_data (snd (map_until (index_package iwa lca) (data L)))))"
    by (rule concat_transfer [THEN rel_funD])
  with False show ?thesis
    by (simp add: index_arrays_def groups_def case_prod_unfold)
qed

lemma index_arrays_length: "length (groups (snd (index_arrays iwa lca L))) = length (groups L)"
  using index_arrays_rel [of iwa lca L] by (simp add: list_all2_lengthD)

lemma index_arrays_nth:
  assumes "i < length (groups L)"
  shows "groups (snd (index_arrays iwa lca L)) ! i = groups L ! i
       \<or> groups (snd (index_arrays iwa lca L)) ! i = snd (index_elem iwa lca (groups L ! i))"
  using index_arrays_rel [of iwa lca L] assms by (auto dest: list_all2_nthD)

lemma groups_update_sample_indices: "groups (snd (update_sample_indices g L)) = groups L"
  by (simp add: update_sample_indices_def groups_def Let_def)

lemma groups_parameters: "groups (parameters L) = groups L"
  by (simp add: parameters_def groups_def)

lemma step_keeps_indexed:
  assumes "i < length (groups L)" and "indexed (groups L ! i)"
  shows "length (groups (step iwa g c L)) = length (groups L)
       \<and> groups (step iwa g c L) ! i = groups L ! i"
proof (cases c)
  case (Index lca)
  from index_arrays_nth [OF assms(1), of iwa lca] assms(2)
  have "groups (snd (index_arrays iwa lca L)) ! i = groups L ! i"
    by (auto simp: index_elem_indexed)
  with Index show ?thesis by (simp add: index_arrays_length)
qed (simp_all add: groups_update_sample_indices groups_parameters)


lemma index_elem_skip:
  assumes "\<not> indexed e" and "meta e ''row dict'' = Some rd"
    and "\<not> hasattr lca rd \<or> (\<exists>cd. meta e ''col dict'' = Some cd \<and> \<not> hasattr lca cd)"
  shows "index_elem iwa lca e = (None, e)"
  using assms by (auto simp: index_elem_def orRaise_def getitem_def require_def)













lemma mock_indexed:
  "index_arrays lookup_resolver MockLCA mock_loader =
     (None, mock_loader\<lparr>data := [mock_package\<lparr>matrix_data :=
        [mock_elem\<lparr>indices :=
           [(''f1'', ''uint32'', [1, 1, 2]), (''f2'', ''uint32'', [1, 2, 3]),
            (''f3'', ''uint32'', [2, 2, 4]), (''f4'', ''uint32'', [3, 6, 9])],
          indexed := True\<rparr>]\<rparr>]\<rparr>)"
  by (simp add: index_arrays_def mock_loader_def mock_package_def index_package_def
      index_elem_def mock_elem_def mock_entries_def getitem_def require_def orRaise_def
      hasattr_def getattr_def MockLCA_def index_with_def getfield_def mock_indices_def
      setfield_def)

lemma mock_gated:
  "index_arrays lookup_resolver MockLCA_no_col mock_loader = (None, mock_loader)"
proof -
  have "index_elem lookup_resolver MockLCA_no_col mock_elem = (None, mock_elem)"
    by (rule index_elem_skip [where rd = "''row_dict''"])
       (simp_all add: mock_elem_def mock_entries_def hasattr_def MockLCA_no_col_def MockLCA_def)
  then show ?thesis
    by (simp add: index_arrays_def mock_loader_def mock_package_def index_package_def)
qed

subsection \<open>One-shot indexing\<close>

text \<open>
  C1. Once a group is marked \<open>indexed\<close>, no later call on the loader changes it: whatever
  sequence of \<open>index_arrays\<close> calls follows, with whatever targets and dictionaries,
  interleaved with the other methods, the loader keeps the same number of groups and that
  group is exactly as it was, resolved positions included. So a group is resolved at most
  once.
\<close>

theorem index_arrays_one_shot:
  assumes "i < length (groups L)" and "indexed (groups L ! i)"
  shows "length (groups (run iwa g cs L)) = length (groups L)
       \<and> groups (run iwa g cs L) ! i = groups L ! i"
  using assms
proof (induction cs arbitrary: L)
  case Nil
  then show ?case by (simp add: run_def)
next
  case (Cons c cs)
  from step_keeps_indexed [OF Cons.prems, of iwa g c]
  have l: "length (groups (step iwa g c L)) = length (groups L)"
    and n: "groups (step iwa g c L) ! i = groups L ! i" by auto
  from Cons.IH [of "step iwa g c L"] Cons.prems l n
  show ?case by (simp add: run_def)
qed


theorem index_arrays_one_shot_witness:
  "0 < length (groups mock_loader_indexed)
   \<and> indexed (groups mock_loader_indexed ! 0)
   \<and> groups (run lookup_resolver lcg [Index MockLCA_changed, Advance, Index MockLCA]
               mock_loader_indexed) ! 0
     = groups mock_loader_indexed ! 0"
proof -
  have h1: "0 < length (groups mock_loader_indexed)"
    by (simp add: mock_loader_indexed_def mock_indexed groups_def)
  have h2: "indexed (groups mock_loader_indexed ! 0)"
    by (simp add: mock_loader_indexed_def mock_indexed groups_def)
  from index_arrays_one_shot [OF h1 h2] h1 h2 show ?thesis by simp
qed

subsection \<open>Resolution gating\<close>





section \<open>Construction\<close>

subsection \<open>What the constructor establishes\<close>

lemma seed_value_Indexer: "seed_value (Indexer g sd) = sd"
  by (simp add: Indexer_def split: prod.splits)

lemma load_data_indexer:
  assumes "load_data g d m sd = Inr (p, ix)"
  shows "\<exists>v. m_seed m = Some v \<and> ix = Indexer g (get_seed sd v) \<and> pkg_seed p = v"
  using assms
  by (auto simp: load_data_def bindE_def require_def Let_def split: option.splits sum.splits)

lemma load_all_seed: "load_all g files ds L = Inr L' \<Longrightarrow> seed L' = seed L"
proof (induction ds arbitrary: L)
  case Nil
  then show ?case by simp
next
  case (Cons d ds)
  then show ?case
    by (auto simp: Let_def split: option.splits sum.splits prod.splits if_splits)
qed

lemma load_all_data:
  "load_all g files ds L = Inr L' \<Longrightarrow> \<forall>p\<in>set (data L). matrix_data p \<noteq> [] \<Longrightarrow>
   \<forall>p\<in>set (data L'). matrix_data p \<noteq> []"
proof (induction ds arbitrary: L)
  case Nil
  then show ?case by simp
next
  case (Cons d ds)
  from Cons.prems(1) obtain m p ix where f: "files d = Some m"
    and l: "load_data g d m (seed L) = Inr (p, ix)"
    by (auto split: option.splits sum.splits)
  let ?L1 = "L\<lparr>sample_indexers := sample_indexers L @ [ix]\<rparr>"
  let ?L2 = "if matrix_data p \<noteq> []
             then ?L1\<lparr>data := data ?L1 @ [p], msi := msi ?L1 @ [length (sample_indexers L)]\<rparr>
             else ?L1"
  let ?L3 = "case parameter_metadata p of
               Some pm \<Rightarrow> ?L2\<lparr>parameter_metadata_list := parameter_metadata_list ?L2 @ [pm],
                              psi := psi ?L2 @ [length (sample_indexers L)]\<rparr>
             | None \<Rightarrow> ?L2"
  from Cons.prems(1) f l have r: "load_all g files ds ?L3 = Inr L'"
    by (simp add: Let_def)
  have "\<forall>q\<in>set (data ?L3). matrix_data q \<noteq> []"
    using Cons.prems(2) by (auto split: option.splits)
  with Cons.IH [OF r] show ?case by blast
qed

lemma load_all_indexers:
  "load_all g files ds L = Inr L' \<Longrightarrow>
   \<exists>ixs. sample_indexers L' = sample_indexers L @ ixs
     \<and> list_all2 (\<lambda>d ix. \<exists>m v. files d = Some m \<and> m_seed m = Some v
                          \<and> ix = Indexer g (get_seed (seed L) v)) ds ixs"
proof (induction ds arbitrary: L)
  case Nil
  then show ?case by simp
next
  case (Cons d ds)
  from Cons.prems(1) obtain m p ix where f: "files d = Some m"
    and l: "load_data g d m (seed L) = Inr (p, ix)"
    by (auto split: option.splits sum.splits)
  let ?L1 = "L\<lparr>sample_indexers := sample_indexers L @ [ix]\<rparr>"
  let ?L2 = "if matrix_data p \<noteq> []
             then ?L1\<lparr>data := data ?L1 @ [p], msi := msi ?L1 @ [length (sample_indexers L)]\<rparr>
             else ?L1"
  let ?L3 = "case parameter_metadata p of
               Some pm \<Rightarrow> ?L2\<lparr>parameter_metadata_list := parameter_metadata_list ?L2 @ [pm],
                              psi := psi ?L2 @ [length (sample_indexers L)]\<rparr>
             | None \<Rightarrow> ?L2"
  from Cons.prems(1) f l have r: "load_all g files ds ?L3 = Inr L'"
    by (simp add: Let_def)
  have s3: "seed ?L3 = seed L" and i3: "sample_indexers ?L3 = sample_indexers L @ [ix]"
    by (auto split: option.splits)
  from Cons.IH [OF r] s3 i3 obtain ixs where
    a: "sample_indexers L' = (sample_indexers L @ [ix]) @ ixs" and
    b: "list_all2 (\<lambda>d ix. \<exists>m v. files d = Some m \<and> m_seed m = Some v
                          \<and> ix = Indexer g (get_seed (seed L) v)) ds ixs"
    by auto
  from load_data_indexer [OF l] f
  have c: "\<exists>m v. files d = Some m \<and> m_seed m = Some v \<and> ix = Indexer g (get_seed (seed L) v)"
    by auto
  from a b c show ?case by (intro exI [of _ "ix # ixs"]) simp
qed

lemma PackagesDataLoader_empty:
  assumes "PackagesDataLoader g files dirpaths sd = Inr L"
  shows "empty L = (data L = [])" and "\<forall>p\<in>set (data L). matrix_data p \<noteq> []"
  using assms load_all_data [of g files dirpaths
      "\<lparr>seed = sd, data = [], parameter_metadata_list = [], sample_indexers = [],
        msi = [], psi = [], empty = True, has_parameters = False\<rparr>"]
  by (auto simp: PackagesDataLoader_def split: sum.splits)

lemma groups_Nil: "\<forall>p\<in>set (data L). matrix_data p \<noteq> [] \<Longrightarrow> (groups L = []) = (data L = [])"
  by (cases "data L") (auto simp: groups_def)


lemma empty_loaded:
  "PackagesDataLoader lcg mock_files [''empty''] None =
     Inr \<lparr>seed = None, data = [], parameter_metadata_list = [],
          sample_indexers = [Indexer lcg None], msi = [], psi = [],
          empty = True, has_parameters = False\<rparr>"
  by (simp add: PackagesDataLoader_def mock_files_def empty_manifest_def load_data_def
      bindE_def require_def truthy_def Let_def get_seed_def)


lemma mock_consolidated: "consolidate [mock_resource] = Inr mock_elem"
  by (simp add: consolidate_def bindE_def getitem_def require_def labels_def
      load_indices_def load_samples_def mock_resource_def mock_elem_def mock_entries_def
      SKIP_def hstack_def mock_indices_def dtype_def truthy_def)

text \<open>A manifest entry \<open>indexed\<close> is copied into the group, which \<open>index_arrays\<close>
  then takes for resolved and never touches.\<close>

lemma flagged_consolidated:
  "consolidate [mock_resource_flagged] =
     Inr (mock_elem\<lparr>meta := mock_entries(''indexed'' \<mapsto> ''true''), indexed := True\<rparr>)"
  by (simp add: consolidate_def bindE_def getitem_def require_def labels_def
      load_indices_def load_samples_def mock_resource_flagged_def mock_resource_def
      mock_elem_def mock_entries_def SKIP_def hstack_def mock_indices_def dtype_def truthy_def
      restrict_map_def fun_eq_iff)

lemma flagged_never_resolved:
  "consolidate [mock_resource_flagged] = Inr e \<Longrightarrow> index_elem iwa lca e = (None, e)"
  by (auto simp: flagged_consolidated index_elem_def)

lemma mock_loaded:
  "load_data lcg ''mock'' mock_manifest sd =
     Inr (mock_package, Indexer lcg (case sd of Some s \<Rightarrow> Some s | None \<Rightarrow> Some 42))"
proof -
  have t: "truthy (entries mock_resource ''matrix'')"
    and k: "getitem (entries mock_resource) ''type'' = Inr ''mock''"
    and n: "\<not> truthy (names mock_resource)"
    by (simp_all add: truthy_def getitem_def require_def mock_resource_def mock_entries_def)
  show ?thesis
    by (simp add: load_data_def mock_manifest_def bindE_def require_def Let_def t k n
        mock_consolidated get_seed_def mock_package_def)
qed

lemma mock_constructed:
  "PackagesDataLoader lcg mock_files [''mock'', ''empty''] (Some 7) =
     Inr \<lparr>seed = Some 7, data = [mock_package], parameter_metadata_list = [],
          sample_indexers = [Indexer lcg (Some 7), Indexer lcg (Some 7)], msi = [0], psi = [],
          empty = False, has_parameters = False\<rparr>"
proof -
  have e: "load_data lcg ''empty'' empty_manifest (Some 7) =
      Inr (\<lparr>name = ''foo'', ident = ''one'', pkg_seed = None, matrix_data = [],
            parameter_metadata = None\<rparr>, Indexer lcg (Some 7))"
    by (simp add: empty_manifest_def load_data_def bindE_def require_def truthy_def Let_def
        get_seed_def)
  have m: "matrix_data mock_package \<noteq> []" "parameter_metadata mock_package = None"
    by (simp_all add: mock_package_def)
  show ?thesis
    by (simp add: PackagesDataLoader_def mock_files_def mock_loaded e m Let_def)
qed

subsection \<open>The empty gate\<close>

text \<open>
  C6. A loader that its constructor built reports \<open>empty\<close> exactly when it holds no
  matrix-bound resource group in any of its packages; then \<open>len\<close> is zero and both
  \<open>index_arrays\<close> and \<open>update_matrices\<close> return at once, raising nothing and changing
  neither the loader nor the target, for every target, the one without any attribute
  included.
\<close>

theorem empty_gate:
  assumes "PackagesDataLoader g files dirpaths sd = Inr L"
  shows "(empty L \<longleftrightarrow> groups L = [])
       \<and> (groups L = [] \<longrightarrow>
            len L = 0
            \<and> index_arrays iwa lca L = (None, L)
            \<and> update_matrices fix lca matrices L = (None, lca))"
  using PackagesDataLoader_empty [OF assms] groups_Nil [of L]
  by (auto simp: index_arrays_def update_matrices_def len_def)


theorem empty_gate_witness:
  "\<exists>L. PackagesDataLoader lcg mock_files [''empty''] None = Inr L
     \<and> empty L \<and> groups L = []
     \<and> index_arrays lookup_resolver Map.empty L = (None, L)
     \<and> update_matrices flip_inputs Map.empty None L = (None, Map.empty)"
  using empty_gate [OF empty_loaded, of lookup_resolver Map.empty flip_inputs None]
  by (simp add: empty_loaded groups_def)


subsection \<open>Seed selection\<close>

text \<open>
  C7. The indexer of every package that is loaded is seeded with the seed that the
  caller supplies when there is one, and with the seed of the package's manifest
  otherwise. With an override, the indexers of all packages of a loader are the one that
  the override alone determines, whatever the manifests record.
\<close>

theorem seed_selection:
  "(load_data g d m sd = Inr (p, ix) \<longrightarrow>
      (\<exists>v. m_seed m = Some v
         \<and> ix = Indexer g (case sd of Some s \<Rightarrow> Some s | None \<Rightarrow> v)
         \<and> seed_value ix = (case sd of Some s \<Rightarrow> Some s | None \<Rightarrow> v)))
   \<and> (PackagesDataLoader g files dirpaths sd = Inr L \<longrightarrow>
        list_all2 (\<lambda>d ix. \<exists>m v. files d = Some m \<and> m_seed m = Some v
                     \<and> ix = Indexer g (case sd of Some s \<Rightarrow> Some s | None \<Rightarrow> v))
          dirpaths (sample_indexers L)
        \<and> (\<forall>s. sd = Some s \<longrightarrow>
             sample_indexers L = replicate (length dirpaths) (Indexer g (Some s))))"
proof (intro conjI impI)
  assume "load_data g d m sd = Inr (p, ix)"
  from load_data_indexer [OF this]
  show "\<exists>v. m_seed m = Some v
         \<and> ix = Indexer g (case sd of Some s \<Rightarrow> Some s | None \<Rightarrow> v)
         \<and> seed_value ix = (case sd of Some s \<Rightarrow> Some s | None \<Rightarrow> v)"
    by (auto simp: get_seed_def seed_value_Indexer)
next
  assume a: "PackagesDataLoader g files dirpaths sd = Inr L"
  let ?L0 = "\<lparr>seed = sd, data = [], parameter_metadata_list = [], sample_indexers = [],
        msi = [], psi = [], empty = True, has_parameters = False\<rparr> :: 'a loader"
  from a obtain L' where l: "load_all g files dirpaths ?L0 = Inr L'"
    and L: "L = L'\<lparr>empty := (data L' = [])\<rparr>"
    by (auto simp: PackagesDataLoader_def split: sum.splits)
  from load_all_indexers [OF l] L
  show all: "list_all2 (\<lambda>d ix. \<exists>m v. files d = Some m \<and> m_seed m = Some v
                     \<and> ix = Indexer g (case sd of Some s \<Rightarrow> Some s | None \<Rightarrow> v))
          dirpaths (sample_indexers L)"
    by (auto simp: get_seed_def)
  show "\<forall>s. sd = Some s \<longrightarrow>
             sample_indexers L = replicate (length dirpaths) (Indexer g (Some s))"
  proof (intro allI impI)
    fix s assume "sd = Some s"
    with all have "list_all2 (\<lambda>d ix. ix = Indexer g (Some s)) dirpaths (sample_indexers L)"
      by (auto elim!: list_all2_mono)
    then show "sample_indexers L = replicate (length dirpaths) (Indexer g (Some s))"
      by (induction rule: list_all2_induct) auto
  qed
qed


theorem seed_selection_witness:
  "load_data lcg ''mock'' mock_manifest (Some 7) = Inr (mock_package, Indexer lcg (Some 7))
   \<and> m_seed mock_manifest = Some (Some 42)
   \<and> seed_value (Indexer lcg (Some 7)) = Some 7
   \<and> (\<exists>L. PackagesDataLoader lcg mock_files [''mock'', ''empty''] (Some 7) = Inr L
          \<and> sample_indexers L = [Indexer lcg (Some 7), Indexer lcg (Some 7)])"
proof -
  have l: "load_data lcg ''mock'' mock_manifest (Some 7) = Inr (mock_package, Indexer lcg (Some 7))"
    by (simp add: mock_loaded)
  from seed_selection [where g = lcg and d = "''mock''" and m = mock_manifest and sd = "Some 7"
      and p = mock_package and ix = "Indexer lcg (Some 7)" and files = mock_files
      and dirpaths = "[''mock'', ''empty'']"] l mock_constructed
  show ?thesis by (simp add: mock_manifest_def numeral_2_eq_2)
qed

section \<open>Updating matrices\<close>

subsection \<open>Elementwise writes\<close>

lemma write_all_snoc: "write_all M (ws @ [(r, c, v)]) = (write_all M ws)((r, c) := v)"
  by (simp add: write_all_def)

lemma write_all_other:
  "p \<notin> set (map (\<lambda>(r, c, v). (r, c)) ws) \<Longrightarrow> write_all M ws p = M p"
proof (induction ws rule: rev_induct)
  case Nil
  show ?case by (simp add: write_all_def)
next
  case (snoc w ws)
  obtain r c v where w: "w = (r, c, v)" by (cases w)
  with snoc show ?case by (auto simp: write_all_snoc)
qed

lemma write_all_last:
  assumes "k < length ws" and "ws ! k = (r, c, v)"
    and "\<forall>j<length ws. k < j \<longrightarrow> (fst (ws ! j), fst (snd (ws ! j))) \<noteq> (r, c)"
  shows "write_all M ws (r, c) = v"
  using assms
proof (induction ws rule: rev_induct)
  case Nil
  then show ?case by simp
next
  case (snoc w ws)
  obtain r' c' v' where w: "w = (r', c', v')" by (cases w)
  show ?case
  proof (cases "k = length ws")
    case True
    with snoc.prems(2) w show ?thesis by (simp add: write_all_snoc)
  next
    case False
    with snoc.prems(1) have k: "k < length ws" by simp
    from snoc.prems(3) [rule_format, of "length ws"] k w have ne: "(r', c') \<noteq> (r, c)" by simp
    have later: "\<forall>j<length ws. k < j \<longrightarrow> (fst (ws ! j), fst (snd (ws ! j))) \<noteq> (r, c)"
    proof (intro allI impI)
      fix j assume j: "j < length ws" "k < j"
      with snoc.prems(3) [rule_format, of j] show "(fst (ws ! j), fst (snd (ws ! j))) \<noteq> (r, c)"
        by (simp add: nth_append)
    qed
    from snoc.prems(2) k have "ws ! k = (r, c, v)" by (simp add: nth_append)
    from snoc.IH [OF k this later] ne w show ?thesis by (auto simp: write_all_snoc)
  qed
qed

lemma foreach_append:
  "foreach f (xs @ ys) s =
     (case foreach f xs s of (Some e, s') \<Rightarrow> (Some e, s') | (None, s') \<Rightarrow> foreach f ys s')"
  by (induction xs arbitrary: s) (auto split: prod.splits option.splits)

lemma foreach_inv:
  assumes "\<And>x s. P s \<Longrightarrow> P (snd (f x s))" and "P s"
  shows "P (snd (foreach f xs s))"
  using assms(2)
proof (induction xs arbitrary: s)
  case Nil
  then show ?case by simp
next
  case (Cons x xs)
  from assms(1) [OF Cons.prems, of x] Cons.IH [of "snd (f x s)"]
  show ?case by (cases "f x s") (auto split: option.splits)
qed

lemma foreach_cong_inv:
  assumes "list_all2 (\<lambda>x y. \<forall>s. P s \<longrightarrow> f x s = g y s) xs ys"
    and "\<And>x s. P s \<Longrightarrow> P (snd (f x s))" and "P s"
  shows "foreach f xs s = foreach g ys s"
  using assms(1,3)
proof (induction arbitrary: s rule: list_all2_induct)
  case Nil
  then show ?case by simp
next
  case (Cons x xs y ys)
  from Cons.hyps(1) Cons.prems have eq: "f x s = g y s" by simp
  from assms(2) [OF Cons.prems, of x] have "P (snd (f x s))" .
  from Cons.IH [OF this] eq show ?case
    by (cases "g y s") (auto split: option.splits)
qed

lemma update_elem_write:
  assumes "meta e ''matrix'' = Some m" and "lca m = Some (Matrix M)"
    and "\<not> skipped lca matrices m"
    and "sample (samples e) i = Inr s0" and "meta e ''type'' = Some ty"
    and "(if ty = ''technosphere'' then fx (indices e) s0 else Inr s0) = Inr s"
    and "meta e ''row to label'' = Some rl" and "getfield (indices e) rl = Inr rows"
    and "length rows = length s"
    and "has_cols e \<longrightarrow> meta e ''col to label'' = Some cl \<and> getfield (indices e) cl = Inr cols
           \<and> length cols = length s"
  shows "update_elem fx lca matrices i e =
           (None, lca(m \<mapsto> Matrix (write_all M
              (zip rows (zip (if has_cols e then cols else rows) s)))))"
proof (cases "has_cols e")
  case True
  with assms show ?thesis
    by (simp add: update_elem_def orRaise_def getitem_def require_def skipped_def has_cols_def
        split: option.splits)
next
  case False
  with assms show ?thesis
    by (simp add: update_elem_def orRaise_def getitem_def require_def skipped_def has_cols_def
        split: option.splits)
qed

lemma placement:
  assumes "length rows = length s" and "length cs = length s"
  shows "(\<forall>k<length s. (\<forall>j<length s. k < j \<longrightarrow> (rows ! j, cs ! j) \<noteq> (rows ! k, cs ! k)) \<longrightarrow>
            write_all M (zip rows (zip cs s)) (rows ! k, cs ! k) = s ! k)
       \<and> (\<forall>p. p \<notin> set (zip rows cs) \<longrightarrow> write_all M (zip rows (zip cs s)) p = M p)"
proof (intro conjI allI impI)
  fix k assume k: "k < length s"
    and last: "\<forall>j<length s. k < j \<longrightarrow> (rows ! j, cs ! j) \<noteq> (rows ! k, cs ! k)"
  let ?ws = "zip rows (zip cs s)"
  from assms have len: "length ?ws = length s" by simp
  from assms k have nth: "?ws ! k = (rows ! k, cs ! k, s ! k)" by simp
  have "\<forall>j<length ?ws. k < j \<longrightarrow> (fst (?ws ! j), fst (snd (?ws ! j))) \<noteq> (rows ! k, cs ! k)"
    using last assms by simp
  from k len have "k < length ?ws" by simp
  from write_all_last [OF this nth \<open>\<forall>j<length ?ws. k < j \<longrightarrow> _\<close>]
  show "write_all M ?ws (rows ! k, cs ! k) = s ! k" .
next
  fix p assume p: "p \<notin> set (zip rows cs)"
  have "map (\<lambda>(r, c, v). (r, c)) (zip rows (zip cs s)) = zip rows cs"
    using assms by (intro nth_equalityI) auto
  with p show "write_all M (zip rows (zip cs s)) p = M p"
    by (simp add: write_all_other)
qed



lemma sample_mock: "sample [mock_samples] 0 = Inr [100, 100, 100]"
  by (simp add: sample_def mock_samples_def)

lemma sample_cf: "sample [[[10], [11], [12]]] 0 = Inr [10, 11, 12]"
  by (simp add: sample_def)


subsection \<open>The order of the writes\<close>

lemma foreach_concat:
  "foreach f (concat xss) s = foreach (\<lambda>xs. foreach f xs) xss s"
  by (induction xss arbitrary: s) (auto simp: foreach_append split: prod.splits option.splits)

lemma foreach_map: "foreach f (map h xs) s = foreach (\<lambda>x. f (h x)) xs s"
  by (induction xs arbitrary: s) (auto split: prod.splits option.splits)

lemma update_matrices_steps:
  assumes "\<not> empty L"
  shows "update_matrices fx lca matrices L =
         foreach (\<lambda>(i, e) lca'. update_elem fx lca' matrices i e) (steps L) lca"
proof -
  let ?f = "\<lambda>(i, e) lca'. update_elem fx lca' matrices i e"
  let ?h = "\<lambda>(a, obj). map (\<lambda>elem. (index (sample_indexers L ! a), elem)) (matrix_data obj)"
  let ?g = "\<lambda>(a, obj). foreach (\<lambda>elem lca'. update_elem fx lca' matrices
                                      (index (sample_indexers L ! a)) elem) (matrix_data obj)"
  have "(\<lambda>x. foreach ?f (?h x)) = ?g"
    by (auto simp: fun_eq_iff foreach_map)
  then have "foreach (\<lambda>x. foreach ?f (?h x)) (zip (msi L) (data L)) lca
           = foreach ?g (zip (msi L) (data L)) lca"
    by (rule arg_cong [where f = "\<lambda>k. foreach k (zip (msi L) (data L)) lca"])
  moreover have "foreach ?f (steps L) lca
           = foreach (\<lambda>x. foreach ?f (?h x)) (zip (msi L) (data L)) lca"
    unfolding steps_def foreach_concat foreach_map ..
  moreover have "update_matrices fx lca matrices L = foreach ?g (zip (msi L) (data L)) lca"
    using assms by (simp add: update_matrices_def)
  ultimately show ?thesis by simp
qed

lemma foreach_at:
  assumes "n < length xs" and "foreach f (take n xs) s = (None, s_n)"
    and "f (xs ! n) s_n = (None, s')"
  shows "foreach f xs s = foreach f (drop (Suc n) xs) s'"
proof -
  have "xs = take n xs @ xs ! n # drop (Suc n) xs"
    using assms(1) by (rule id_take_nth_drop)
  then have "foreach f xs s = foreach f (take n xs @ xs ! n # drop (Suc n) xs) s" by simp
  also have "\<dots> = foreach f (drop (Suc n) xs) s'"
    using assms(2,3) by (simp add: foreach_append)
  finally show ?thesis .
qed


lemma arange_steps: "steps arange_loader = [(2, arange_elem)]"
  by (simp add: steps_def arange_loader_def Indexer_def lcg_def mock_package_def)

lemma raw_steps: "steps raw_loader = [(2, arange_raw_elem), (0, cf_elem)]"
  by (simp add: steps_def raw_loader_def Indexer_def lcg_def mock_package_def)


lemma sample_arange: "sample [arange_samples] 2 = Inr [2, 6, 10]"
  by (simp add: sample_def arange_samples_def)

lemma raw_first:
  "update_elem flip_inputs BothLCA None 2 arange_raw_elem =
     (None, BothLCA(''matrix'' \<mapsto> Matrix (write_all zeros (zip [1, 1, 2] (zip [1, 2, 3] [2, 6, 10])))))"
  by (simp add: update_elem_def orRaise_def getitem_def require_def arange_raw_elem_def
      mock_elem_def mock_entries_def BothLCA_def MockLCA_def sample_arange getfield_def
      mock_indices_def)




subsection \<open>Write placement\<close>

text \<open>
  C4. \<open>update_matrices\<close> visits the groups package by package, each with the index that
  the indexer of its package shows, and hands the target on from one group to the next.
  For the group at position \<open>n\<close> of that order, when the groups before it have been
  processed without an exception and the group is not skipped, the values of the sample
  (as it stands when it is written, that is after the fix-up for a \<open>technosphere\<close> group)
  are written record by record: value \<open>k\<close> at row \<open>row_to[k]\<close> and column \<open>col_to[k]\<close>
  when the group declares column fields, and at the diagonal position of \<open>row_to[k]\<close> when
  it does not. The call goes on with the later groups from the target so written. The
  matrix then holds value \<open>k\<close> at that position unless a later record names the same
  position, and it is unchanged at every position that no record names.
\<close>

theorem write_placement:
  assumes "\<not> empty L" and "n < length (steps L)" and "steps L ! n = (i, e)"
    and "foreach (\<lambda>(i, e) lca'. update_elem fx lca' matrices i e) (take n (steps L)) lca
           = (None, lca_n)"
    and "meta e ''matrix'' = Some m" and "lca_n m = Some (Matrix M)"
    and "\<not> skipped lca_n matrices m"
    and "sample (samples e) i = Inr s0" and "meta e ''type'' = Some ty"
    and "(if ty = ''technosphere'' then fx (indices e) s0 else Inr s0) = Inr s"
    and "meta e ''row to label'' = Some rl" and "getfield (indices e) rl = Inr rows"
    and "length rows = length s"
    and "has_cols e \<longrightarrow> meta e ''col to label'' = Some cl \<and> getfield (indices e) cl = Inr cols
           \<and> length cols = length s"
  shows "let cs = (if has_cols e then cols else rows);
             M' = write_all M (zip rows (zip cs s))
         in update_elem fx lca_n matrices i e = (None, lca_n(m \<mapsto> Matrix M'))
          \<and> update_matrices fx lca matrices L =
              foreach (\<lambda>(i, e) lca'. update_elem fx lca' matrices i e)
                (drop (Suc n) (steps L)) (lca_n(m \<mapsto> Matrix M'))
          \<and> (\<forall>k<length s. (\<forall>j<length s. k < j \<longrightarrow> (rows ! j, cs ! j) \<noteq> (rows ! k, cs ! k)) \<longrightarrow>
                 M' (rows ! k, cs ! k) = s ! k)
          \<and> (\<forall>p. p \<notin> set (zip rows cs) \<longrightarrow> M' p = M p)"
proof -
  let ?cs = "if has_cols e then cols else rows"
  let ?M' = "write_all M (zip rows (zip ?cs s))"
  let ?f = "\<lambda>(i, e) lca'. update_elem fx lca' matrices i e"
  from assms(13,14) have len: "length ?cs = length s" by simp
  have u: "update_elem fx lca_n matrices i e = (None, lca_n(m \<mapsto> Matrix ?M'))"
    by (rule update_elem_write [where fx = fx, OF assms(5-14)])
  with assms(3) have "?f (steps L ! n) lca_n = (None, lca_n(m \<mapsto> Matrix ?M'))" by simp
  from foreach_at [of n "steps L" ?f lca lca_n, OF assms(2,4) this]
    update_matrices_steps [OF assms(1), of fx lca matrices]
  have w: "update_matrices fx lca matrices L =
      foreach ?f (drop (Suc n) (steps L)) (lca_n(m \<mapsto> Matrix ?M'))" by simp
  from u w placement [OF assms(13) len, of M]
  show ?thesis unfolding Let_def by blast
qed


theorem write_placement_witness:
  "(\<exists>M'. update_matrices flip_inputs MockLCA None arange_loader
            = (None, MockLCA(''matrix'' \<mapsto> Matrix M'))
        \<and> M' (2, 3) = 2 \<and> M' (2, 6) = 6 \<and> M' (4, 9) = 10 \<and> M' (1, 1) = 0)
   \<and> (\<exists>A M'. update_matrices flip_inputs BothLCA None raw_loader
            = (None, BothLCA(''matrix'' \<mapsto> Matrix A, ''characterization_matrix'' \<mapsto> Matrix M'))
        \<and> M' (1, 1) = 10 \<and> M' (3, 3) = 11 \<and> M' (4, 4) = 12 \<and> M' (1, 3) = 0)"
proof -
  let ?f = "\<lambda>(i, e) lca'. update_elem flip_inputs lca' None i e"
  have a0: "\<not> empty arange_loader" by (simp add: arange_loader_def)
  have a1: "0 < length (steps arange_loader)"
    "steps arange_loader ! 0 = (2, arange_elem)"
    "foreach ?f (take 0 (steps arange_loader)) MockLCA = (None, MockLCA)"
    by (simp_all add: arange_steps)
  have a: "meta arange_elem ''matrix'' = Some ''matrix''"
    "MockLCA ''matrix'' = Some (Matrix zeros)" "\<not> skipped MockLCA None ''matrix''"
    "sample (samples arange_elem) 2 = Inr [2, 6, 10]"
    "meta arange_elem ''type'' = Some ''mock''"
    "(if ''mock'' = ''technosphere'' then flip_inputs (indices arange_elem) [2, 6, 10]
      else Inr [2, 6, 10]) = Inr [2, 6, 10]"
    "meta arange_elem ''row to label'' = Some ''f3''"
    "getfield (indices arange_elem) ''f3'' = Inr [2, 2, 4]"
    "length [2, 2, 4 :: nat] = length [2, 6, 10 :: real]"
    "has_cols arange_elem \<longrightarrow> meta arange_elem ''col to label'' = Some ''f4''
       \<and> getfield (indices arange_elem) ''f4'' = Inr [3, 6, 9]
       \<and> length [3, 6, 9 :: nat] = length [2, 6, 10 :: real]"
    by (simp_all add: arange_elem_def mock_elem_indexed_def
        mock_elem_def mock_entries_def MockLCA_def skipped_def sample_arange getfield_def)
  have hc: "has_cols arange_elem"
    by (simp add: has_cols_def arange_elem_def mock_elem_indexed_def mock_elem_def mock_entries_def)
  let ?R = "write_all zeros (zip [1, 1, 2] (zip [1, 2, 3] [2, 6, 10]))"
  have b0: "\<not> empty raw_loader" by (simp add: raw_loader_def)
  have b1: "1 < length (steps raw_loader)"
    "steps raw_loader ! 1 = (0, cf_elem)"
    "foreach ?f (take 1 (steps raw_loader)) BothLCA = (None, BothLCA(''matrix'' \<mapsto> Matrix ?R))"
    by (simp_all add: raw_steps raw_first)
  have b: "meta cf_elem ''matrix'' = Some ''characterization_matrix''"
    "(BothLCA(''matrix'' \<mapsto> Matrix ?R)) ''characterization_matrix'' = Some (Matrix zeros)"
    "\<not> skipped (BothLCA(''matrix'' \<mapsto> Matrix ?R)) None ''characterization_matrix''"
    "sample (samples cf_elem) 0 = Inr [10, 11, 12]"
    "meta cf_elem ''type'' = Some ''cf''"
    "(if ''cf'' = ''technosphere'' then flip_inputs (indices cf_elem) [10, 11, 12]
      else Inr [10, 11, 12]) = Inr [10, 11, 12]"
    "meta cf_elem ''row to label'' = Some ''row''"
    "getfield (indices cf_elem) ''row'' = Inr [1, 3, 4]"
    "length [1, 3, 4 :: nat] = length [10, 11, 12 :: real]"
    "has_cols cf_elem \<longrightarrow> meta cf_elem ''col to label'' = Some []
       \<and> getfield (indices cf_elem) [] = Inr []
       \<and> length ([] :: nat list) = length [10, 11, 12 :: real]"
    by (simp_all add: cf_elem_def BothLCA_def skipped_def
        sample_cf getfield_def has_cols_def)
  have nc: "\<not> has_cols cf_elem" by (simp add: has_cols_def cf_elem_def)
  let ?A = "write_all zeros (zip [2, 2, 4] (zip [3, 6, 9] [2, 6, 10]))"
  let ?B = "write_all zeros (zip [1, 3, 4] (zip [1, 3, 4] [10, 11, 12]))"
  from write_placement [where fx = flip_inputs and lca = MockLCA, OF a0 a1 a] hc
  have u: "update_matrices flip_inputs MockLCA None arange_loader
            = (None, MockLCA(''matrix'' \<mapsto> Matrix ?A))"
    by (simp add: Let_def arange_steps)
  have v: "?A (2, 3) = 2 \<and> ?A (2, 6) = 6 \<and> ?A (4, 9) = 10 \<and> ?A (1, 1) = 0"
    by (simp add: write_all_def zeros_def)
  from u v have 1: "\<exists>M'. update_matrices flip_inputs MockLCA None arange_loader
            = (None, MockLCA(''matrix'' \<mapsto> Matrix M'))
        \<and> M' (2, 3) = 2 \<and> M' (2, 6) = 6 \<and> M' (4, 9) = 10 \<and> M' (1, 1) = 0"
    by blast
  from write_placement [where fx = flip_inputs and lca = BothLCA, OF b0 b1 b] nc
  have u': "update_matrices flip_inputs BothLCA None raw_loader
            = (None, BothLCA(''matrix'' \<mapsto> Matrix ?R, ''characterization_matrix'' \<mapsto> Matrix ?B))"
    by (simp add: Let_def raw_steps)
  have v': "?B (1, 1) = 10 \<and> ?B (3, 3) = 11 \<and> ?B (4, 4) = 12 \<and> ?B (1, 3) = 0"
    by (simp add: write_all_def zeros_def)
  from u' v' have 2: "\<exists>A M'. update_matrices flip_inputs BothLCA None raw_loader
            = (None, BothLCA(''matrix'' \<mapsto> Matrix A, ''characterization_matrix'' \<mapsto> Matrix M'))
        \<and> M' (1, 1) = 10 \<and> M' (3, 3) = 11 \<and> M' (4, 4) = 12 \<and> M' (1, 3) = 0"
    by blast
  from 1 2 show ?thesis by blast
qed



subsection \<open>Updating before indexing\<close>














subsection \<open>Skipped groups\<close>

lemma setitem_Some_dom:
  "snd (update_elem fx lca matrices i e) m = None \<longleftrightarrow> lca m = None"
  by (auto simp: update_elem_def orRaise_def split: sum.splits option.splits if_splits)

lemma update_elem_keeps_skipped:
  "skipped lca matrices m \<Longrightarrow> skipped (snd (update_elem fx lca matrices i e)) matrices m"
  by (auto simp: skipped_def setitem_Some_dom)

lemma update_elem_skip:
  assumes "meta e ''matrix'' = Some m" and "skipped lca matrices m"
  shows "update_elem fx lca matrices i e = (None, lca)"
  using assms
  by (auto simp: update_elem_def orRaise_def getitem_def require_def skipped_def
      split: option.splits)

lemma foreach_drop_skipped:
  assumes "k < length es" and "meta (es ! k) ''matrix'' = Some m"
    and "skipped lca matrices m"
  shows "foreach (\<lambda>elem lca'. update_elem fx lca' matrices i elem) es lca =
         foreach (\<lambda>elem lca'. update_elem fx lca' matrices i elem) (take k es @ drop (Suc k) es) lca"
proof -
  let ?f = "\<lambda>elem lca'. update_elem fx lca' matrices i elem"
  have es: "es = take k es @ es ! k # drop (Suc k) es"
    using assms(1) by (rule id_take_nth_drop)
  obtain r s' where t: "foreach ?f (take k es) lca = (r, s')"
    by (cases "foreach ?f (take k es) lca")
  have "skipped (snd (foreach ?f (take k es) lca)) matrices m"
    by (rule foreach_inv [where P = "\<lambda>s. skipped s matrices m"])
       (simp_all add: update_elem_keeps_skipped assms(3))
  with t have "skipped s' matrices m" by simp
  with assms(2) have "update_elem fx s' matrices i (es ! k) = (None, s')"
    by (rule update_elem_skip)
  then have "foreach ?f (take k es @ es ! k # drop (Suc k) es) lca
           = foreach ?f (take k es @ drop (Suc k) es) lca"
    using t by (simp add: foreach_append split: option.splits)
  with es show ?thesis by simp
qed

lemma update_matrices_drop_group:
  assumes "j < length (data L)" and "k < length (matrix_data (data L ! j))"
    and "meta (matrix_data (data L ! j) ! k) ''matrix'' = Some m"
    and "skipped lca matrices m"
  shows "update_matrices fx lca matrices (drop_group j k L) = update_matrices fx lca matrices L"
proof (cases "empty L")
  case True
  then show ?thesis by (simp add: update_matrices_def drop_group_def)
next
  case False
  let ?P = "\<lambda>s. skipped s matrices m"
  let ?F = "\<lambda>(a, obj). foreach (\<lambda>elem lca'. update_elem fx lca' matrices
                                      (index (sample_indexers L ! a)) elem) (matrix_data obj)"
  let ?p' = "(data L ! j)\<lparr>matrix_data :=
          take k (matrix_data (data L ! j)) @ drop (Suc k) (matrix_data (data L ! j))\<rparr>"
  have inv: "\<And>(x :: nat \<times> package) s. ?P s \<Longrightarrow> ?P (snd (?F x s))"
  proof -
    fix x :: "nat \<times> package" and s assume "?P s"
    obtain a obj where x: "x = (a, obj)" by (cases x)
    have "?P (snd (foreach (\<lambda>elem lca'. update_elem fx lca' matrices
                                      (index (sample_indexers L ! a)) elem) (matrix_data obj) s))"
      by (rule foreach_inv [where P = ?P]) (simp_all add: update_elem_keeps_skipped \<open>?P s\<close>)
    with x show "?P (snd (?F x s))" by simp
  qed
  have rel: "list_all2 (\<lambda>x y. \<forall>s. ?P s \<longrightarrow> ?F x s = ?F y s)
               (zip (msi L) (data L)) (zip (msi L) ((data L)[j := ?p']))"
  proof (rule list_all2_all_nthI)
    show "length (zip (msi L) (data L)) = length (zip (msi L) ((data L)[j := ?p']))" by simp
  next
    fix n assume n: "n < length (zip (msi L) (data L))"
    show "\<forall>s. ?P s \<longrightarrow> ?F (zip (msi L) (data L) ! n) s = ?F (zip (msi L) ((data L)[j := ?p']) ! n) s"
    proof (cases "n = j")
      case False
      with n show ?thesis by simp
    next
      case True
      with n assms(2,3) show ?thesis
        by (auto simp: foreach_drop_skipped [symmetric])
    qed
  qed
  from foreach_cong_inv [where P = ?P, OF rel inv assms(4)] False
  show ?thesis by (simp add: update_matrices_def drop_group_def)
qed

lemma foreach_all_skipped:
  assumes "\<forall>e\<in>set es. \<exists>m. meta e ''matrix'' = Some m \<and> skipped lca matrices m"
  shows "foreach (\<lambda>elem lca'. update_elem fx lca' matrices i elem) es lca = (None, lca)"
  using assms by (induction es) (auto simp: update_elem_skip)

lemma update_matrices_all_skipped:
  assumes "\<forall>e\<in>set (groups L). \<exists>m. meta e ''matrix'' = Some m \<and> skipped lca matrices m"
  shows "update_matrices fx lca matrices L = (None, lca)"
proof -
  have "\<And>ps :: (nat \<times> package) list.
          \<forall>(a, obj)\<in>set ps. \<forall>e\<in>set (matrix_data obj).
            \<exists>m. meta e ''matrix'' = Some m \<and> skipped lca matrices m \<Longrightarrow>
          foreach (\<lambda>(a, obj). foreach (\<lambda>elem lca'. update_elem fx lca' matrices
                                      (index (sample_indexers L ! a)) elem) (matrix_data obj))
            ps lca = (None, lca)"
  proof -
    fix ps :: "(nat \<times> package) list"
    show "\<forall>(a, obj)\<in>set ps. \<forall>e\<in>set (matrix_data obj).
            \<exists>m. meta e ''matrix'' = Some m \<and> skipped lca matrices m \<Longrightarrow>
          foreach (\<lambda>(a, obj). foreach (\<lambda>elem lca'. update_elem fx lca' matrices
                                      (index (sample_indexers L ! a)) elem) (matrix_data obj))
            ps lca = (None, lca)"
      by (induction ps) (auto simp: foreach_all_skipped)
  qed
  moreover have "\<forall>(a, obj)\<in>set (zip (msi L) (data L)). \<forall>e\<in>set (matrix_data obj).
            \<exists>m. meta e ''matrix'' = Some m \<and> skipped lca matrices m"
    using assms by (auto simp: groups_def dest!: set_zip_rightD)
  ultimately show ?thesis by (simp add: update_matrices_def)
qed


text \<open>
  C5. When the target has no attribute of the name of a group's matrix, or the filter
  excludes that name, the step of \<open>update_matrices\<close> for the group raises nothing and
  leaves the whole target as it was; the call as a whole has the result that it has on
  the loader without that group; and when every group of the loader is skipped the call
  returns normally with the target unchanged.
\<close>

theorem missing_matrix_skip:
  assumes "meta e ''matrix'' = Some m" and "skipped lca matrices m"
  shows "update_elem fx lca matrices i e = (None, lca)
       \<and> (j < length (data L) \<and> k < length (matrix_data (data L ! j))
            \<and> matrix_data (data L ! j) ! k = e \<longrightarrow>
          update_matrices fx lca matrices L = update_matrices fx lca matrices (drop_group j k L))
       \<and> ((\<forall>e'\<in>set (groups L). \<exists>m'. meta e' ''matrix'' = Some m' \<and> skipped lca matrices m') \<longrightarrow>
          update_matrices fx lca matrices L = (None, lca))"
proof (intro conjI impI)
  show "update_elem fx lca matrices i e = (None, lca)"
    using assms by (rule update_elem_skip)
next
  assume "j < length (data L) \<and> k < length (matrix_data (data L ! j))
            \<and> matrix_data (data L ! j) ! k = e"
  with update_matrices_drop_group [of j L k m lca matrices fx] assms
  show "update_matrices fx lca matrices L = update_matrices fx lca matrices (drop_group j k L)"
    by simp
next
  assume "\<forall>e'\<in>set (groups L). \<exists>m'. meta e' ''matrix'' = Some m' \<and> skipped lca matrices m'"
  then show "update_matrices fx lca matrices L = (None, lca)"
    by (rule update_matrices_all_skipped)
qed

theorem missing_matrix_skip_witness:
  "meta mock_elem ''matrix'' = Some ''matrix''
   \<and> skipped WrongLCA None ''matrix''
   \<and> skipped MockLCA (Some [''technosphere_matrix'']) ''matrix''
   \<and> update_elem flip_inputs WrongLCA None 0 mock_elem = (None, WrongLCA)
   \<and> update_matrices flip_inputs WrongLCA None mock_loader = (None, WrongLCA)
   \<and> update_matrices flip_inputs MockLCA (Some [''technosphere_matrix'']) mock_loader
       = (None, MockLCA)
   \<and> update_matrices flip_inputs WrongLCA None mock_loader
       = update_matrices flip_inputs WrongLCA None (drop_group 0 0 mock_loader)"
proof -
  have m: "meta mock_elem ''matrix'' = Some ''matrix''"
    by (simp add: mock_elem_def mock_entries_def)
  have s1: "skipped WrongLCA None ''matrix''"
    by (simp add: skipped_def WrongLCA_def)
  have s2: "skipped MockLCA (Some [''technosphere_matrix'']) ''matrix''"
    by (simp add: skipped_def)
  have g: "groups mock_loader = [mock_elem]"
    and d: "0 < length (data mock_loader)"
      "0 < length (matrix_data (data mock_loader ! 0))"
      "matrix_data (data mock_loader ! 0) ! 0 = mock_elem"
    by (simp_all add: groups_def mock_loader_def mock_package_def)
  have a1: "\<forall>e'\<in>set (groups mock_loader). \<exists>m'. meta e' ''matrix'' = Some m'
      \<and> skipped WrongLCA None m'"
    and a2: "\<forall>e'\<in>set (groups mock_loader). \<exists>m'. meta e' ''matrix'' = Some m'
      \<and> skipped MockLCA (Some [''technosphere_matrix'']) m'"
    using g m s1 s2 by simp_all
  note t1 = missing_matrix_skip [OF m s1, where fx = flip_inputs and i = 0 and j = 0 and k = 0
      and L = mock_loader]
  note t2 = missing_matrix_skip [OF m s2, where fx = flip_inputs and i = 0 and j = 0 and k = 0
      and L = mock_loader]
  from t1 t2 a1 a2 d m s1 s2 show ?thesis by blast
qed

end
